theory Spec2Isabelle
  imports Complex_Main
begin

section \<open>The training driver of solver.py\<close>

text \<open>
  The file holds one class, \<^verbatim>\<open>Solver\<close>, with the methods \<^verbatim>\<open>__init__\<close>, \<^verbatim>\<open>fit\<close>,
  \<^verbatim>\<open>train\<close> and \<^verbatim>\<open>evaluate\<close>. Everything else (the network, the loss criterion, the
  optimizer, the scheduler, the data loaders, the metrics aggregator) is a collaborator of
  another library and is taken as a parameter.

  Conventions of the embedding.
  \<^item> A Python \<^verbatim>\<open>float\<close> is a real number: rounding, infinities and NaN are outside the
    model. Every equation between losses below is an equation of exact arithmetic.
  \<^item> An exception is a value of \<open>error\<close>. A method that mutates its arguments before it
    raises returns the mutated objects together with the error.
  \<^item> Moving a tensor to the device, the progress bar and \<^verbatim>\<open>print\<close> have no effect on
    the state and are left out, except where evaluating their arguments can raise.
  \<^item> The operations of the collaborators are total functions: an error raised inside the
    network, the criterion, the optimizer, a loader or the metrics is outside the model.
\<close>

datatype error = TypeError | ZeroDivisionError | AttributeError | IndexError

subsection \<open>Collaborators\<close>

text \<open>
  A network is its parameter state and the mode flag that \<^verbatim>\<open>model.train()\<close> and
  \<^verbatim>\<open>model.eval()\<close> set.
\<close>

record 'p net =
  params :: 'p
  training :: bool

text \<open>The metric keys imported from \<^verbatim>\<open>utils.config\<close> (\<^verbatim>\<open>AUROC_\<close> is written \<open>AUROC\<close>).\<close>

datatype metric =
  ACCURACY | AUPRC | AUROC | DICE_SCORE | F1_SCORE | JACCARD_INDEX | PRECISION | RECALL
  | SPECIFICITY

text \<open>
  The operations of the collaborators that the driver calls:
  \<^item> \<open>forward env net X\<close> is \<^verbatim>\<open>model(X)\<close>, a function of the parameters, the mode and
    the input;
  \<^item> \<open>criterion env logits Y\<close> is the scalar \<^verbatim>\<open>criterion(logits, Y).detach().item()\<close>;
  \<^item> \<open>size0 env X\<close> is \<^verbatim>\<open>X.size(0)\<close>;
  \<^item> \<open>backward_step env opt net X Y\<close> is \<^verbatim>\<open>optimizer.zero_grad()\<close>, \<^verbatim>\<open>loss.backward()\<close>
    and \<^verbatim>\<open>optimizer.step()\<close> on the batch: the new optimizer state and parameters;
  \<^item> \<open>metrics_new\<close>, \<open>metrics_reset\<close>, \<open>metrics_update\<close>, \<open>metrics_compute\<close> are the
    constructor and the methods of \<^verbatim>\<open>Metrics\<close>;
  \<^item> \<open>scheduler_step env sch v\<close> is \<^verbatim>\<open>sch.step(v)\<close> on a scheduler object.
\<close>

record ('p, 'o, 'x, 'y, 'l, 'm, 's) collaborators =
  forward :: "'p net \<Rightarrow> 'x \<Rightarrow> 'l"
  criterion :: "'l \<Rightarrow> 'y \<Rightarrow> real"
  size0 :: "'x \<Rightarrow> nat"
  backward_step :: "'o \<Rightarrow> 'p net \<Rightarrow> 'x \<Rightarrow> 'y \<Rightarrow> 'o \<times> 'p"
  metrics_new :: 'm
  metrics_reset :: "'m \<Rightarrow> 'm"
  metrics_update :: "'m \<Rightarrow> 'l \<Rightarrow> 'y \<Rightarrow> 'm"
  metrics_compute :: "'m \<Rightarrow> metric \<Rightarrow> real"
  scheduler_step :: "'s \<Rightarrow> real \<Rightarrow> 's"

subsection \<open>The training pass\<close>

text \<open>
  The local variables of \<^verbatim>\<open>train\<close>, with the objects it mutates. \<^verbatim>\<open>loss_total\<close> is a sum
  of batch sizes, a natural number.
\<close>

record ('p, 'o, 'm) train_vars =
  tv_model :: "'p net"
  tv_optimizer :: 'o
  tv_metrics :: 'm
  loss_sum :: real
  loss_total :: nat
  avg_sum :: real
  train_loss :: "real list"

text \<open>The loop \<^verbatim>\<open>for batch_idx, (X, Y) in enumerate(dataloader)\<close> of \<^verbatim>\<open>train\<close>.\<close>

fun train_loop ::
  "('p, 'o, 'x, 'y, 'l, 'm, 's) collaborators \<Rightarrow> nat \<Rightarrow> ('x \<times> 'y) list \<Rightarrow>
   ('p, 'o, 'm) train_vars \<Rightarrow> ('p, 'o, 'm) train_vars" where
  "train_loop env batch_idx [] v = v"
| "train_loop env batch_idx ((X, Y) # rest) v =
     (let batch_size = size0 env X;
          logits = forward env (tv_model v) X;
          l = criterion env logits Y;
          stepped = backward_step env (tv_optimizer v) (tv_model v) X Y
      in train_loop env (Suc batch_idx) rest
           (v\<lparr>tv_model := (tv_model v)\<lparr>params := snd stepped\<rparr>,
              tv_optimizer := fst stepped,
              tv_metrics := metrics_update env (tv_metrics v) logits Y,
              loss_sum := loss_sum v + l * real batch_size,
              loss_total := loss_total v + batch_size,
              avg_sum := avg_sum v + l,
              train_loss := train_loss v @ [(avg_sum v + l) / real (batch_idx + 1)]\<rparr>))"

text \<open>
  \<^verbatim>\<open>train\<close> returns the network, the optimizer and the metrics as it leaves them, and
  either the pair \<^verbatim>\<open>(train_loss, loss_sum / loss_total)\<close> or the error of the division.
  The sums, the products and the quotients of the pass are those of the reals: each
  stands for the binary64 operation of the code, which returns the rounded value. What is
  proved of a loss below is proved of the formula, not of its binary64 value bit for bit.
\<close>

definition train ::
  "('p, 'o, 'x, 'y, 'l, 'm, 's) collaborators \<Rightarrow> 'p net \<Rightarrow> 'o \<Rightarrow> ('x \<times> 'y) list \<Rightarrow> 'm \<Rightarrow>
   'p net \<times> 'o \<times> 'm \<times> (error + real list \<times> real)" where
  "train env net opt dataloader metrics =
     (let v = train_loop env 0 dataloader
                \<lparr>tv_model = net\<lparr>training := True\<rparr>, tv_optimizer = opt, tv_metrics = metrics,
                 loss_sum = 0, loss_total = 0, avg_sum = 0, train_loss = []\<rparr>
      in (tv_model v, tv_optimizer v, tv_metrics v,
          if loss_total v = 0 then Inl ZeroDivisionError
          else Inr (train_loss v, loss_sum v / real (loss_total v))))"

text \<open>
  The value of \<^verbatim>\<open>l\<close> in each iteration of the training loop, in order: the loss of a
  batch under the parameters that the steps on the earlier batches left.
\<close>

fun train_batch_losses ::
  "('p, 'o, 'x, 'y, 'l, 'm, 's) collaborators \<Rightarrow> 'p net \<Rightarrow> 'o \<Rightarrow> ('x \<times> 'y) list \<Rightarrow> real list"
  where
  "train_batch_losses env net opt [] = []"
| "train_batch_losses env net opt ((X, Y) # rest) =
     criterion env (forward env net X) Y
       # train_batch_losses env (net\<lparr>params := snd (backward_step env opt net X Y)\<rparr>)
           (fst (backward_step env opt net X Y)) rest"

subsection \<open>The evaluation pass\<close>

record ('p, 'm) evaluate_vars =
  ev_model :: "'p net"
  ev_metrics :: 'm
  total :: nat
  all_loss :: real
  ev_avg_sum :: real

fun evaluate_loop ::
  "('p, 'o, 'x, 'y, 'l, 'm, 's) collaborators \<Rightarrow> nat \<Rightarrow> ('x \<times> 'y) list \<Rightarrow>
   ('p, 'm) evaluate_vars \<Rightarrow> ('p, 'm) evaluate_vars" where
  "evaluate_loop env batch_idx [] v = v"
| "evaluate_loop env batch_idx ((X, Y) # rest) v =
     (let batch_size = size0 env X;
          logits = forward env (ev_model v) X;
          l = criterion env logits Y
      in evaluate_loop env (Suc batch_idx) rest
           (v\<lparr>ev_metrics := metrics_update env (ev_metrics v) logits Y,
              total := total v + batch_size,
              all_loss := all_loss v + l * real batch_size,
              ev_avg_sum := ev_avg_sum v + l\<rparr>))"

text \<open>
  The body of \<^verbatim>\<open>evaluate\<close> once its parameters \<^verbatim>\<open>model\<close>, \<^verbatim>\<open>dataloader\<close> and
  \<^verbatim>\<open>metrics\<close> are bound: the network and the metrics as it leaves them, and either
  \<^verbatim>\<open>all_loss / total\<close> or the error of the division. As in \<open>train\<close>, the arithmetic is
  that of the reals and stands for the binary64 operations of the code.
\<close>

definition evaluate ::
  "('p, 'o, 'x, 'y, 'l, 'm, 's) collaborators \<Rightarrow> 'p net \<Rightarrow> ('x \<times> 'y) list \<Rightarrow> 'm \<Rightarrow>
   'p net \<times> 'm \<times> (error + real)" where
  "evaluate env net dataloader metrics =
     (let v = evaluate_loop env 0 dataloader
                \<lparr>ev_model = net\<lparr>training := False\<rparr>, ev_metrics = metrics,
                 total = 0, all_loss = 0, ev_avg_sum = 0\<rparr>
      in (ev_model v, ev_metrics v,
          if total v = 0 then Inl ZeroDivisionError else Inr (all_loss v / real (total v))))"

text \<open>The value of \<^verbatim>\<open>l\<close> in each iteration of the evaluation loop.\<close>

definition evaluate_batch_losses ::
  "('p, 'o, 'x, 'y, 'l, 'm, 's) collaborators \<Rightarrow> 'p net \<Rightarrow> ('x \<times> 'y) list \<Rightarrow> real list" where
  "evaluate_batch_losses env net dataloader =
     map (\<lambda>(X, Y). criterion env (forward env net X) Y) dataloader"

text \<open>The batch sizes of a loader, and the batch-size-weighted mean of a list of losses.\<close>

definition batch_sizes ::
  "('p, 'o, 'x, 'y, 'l, 'm, 's) collaborators \<Rightarrow> ('x \<times> 'y) list \<Rightarrow> nat list" where
  "batch_sizes env dataloader = map (\<lambda>(X, Y). size0 env X) dataloader"

definition weighted_mean :: "real list \<Rightarrow> nat list \<Rightarrow> real" where
  "weighted_mean ls ns = sum_list (map2 (\<lambda>l n. l * real n) ls ns) / real (sum_list ns)"

subsection \<open>Calling a method through an instance\<close>

text \<open>
  \<^verbatim>\<open>self.f(a1, ..., an)\<close> passes the instance and the \<open>n\<close> written arguments to a plain
  method, and only the \<open>n\<close> written arguments to a \<^verbatim>\<open>@staticmethod\<close>. The positional
  arguments are bound to the parameters from the left; a parameter without a default
  that stays unbound, or an argument left over, raises \<^verbatim>\<open>TypeError\<close> before the body
  runs. \<^verbatim>\<open>@torch.inference_mode()\<close> passes the arguments on unchanged.
\<close>

datatype method_kind = InstanceMethod | StaticMethod

record signature =
  sig_kind :: method_kind
  sig_required :: "string list"
  sig_defaulted :: "string list"

definition received :: "signature \<Rightarrow> nat \<Rightarrow> nat" where
  "received sg n = (case sig_kind sg of InstanceMethod \<Rightarrow> Suc n | StaticMethod \<Rightarrow> n)"

definition unbound :: "signature \<Rightarrow> nat \<Rightarrow> string list" where
  "unbound sg n = drop (received sg n) (sig_required sg)"

definition call_binds :: "signature \<Rightarrow> nat \<Rightarrow> bool" where
  "call_binds sg n =
     (unbound sg n = [] \<and>
      received sg n \<le> length (sig_required sg) + length (sig_defaulted sg))"

definition train_signature :: signature where
  "train_signature =
     \<lparr>sig_kind = InstanceMethod,
      sig_required = [''self'', ''model'', ''criterion'', ''optimizer'', ''device'',
                      ''dataloader'', ''metrics''],
      sig_defaulted = []\<rparr>"

definition evaluate_signature :: signature where
  "evaluate_signature =
     \<lparr>sig_kind = StaticMethod,
      sig_required = [''self'', ''model'', ''criterion'', ''device'', ''dataloader'',
                      ''metrics''],
      sig_defaulted = [''decsription'']\<rparr>"

subsection \<open>The driver\<close>

text \<open>
  The fields of \<^verbatim>\<open>Solver\<close> that hold state. \<^verbatim>\<open>criterion\<close> is stateless and lives with the
  collaborators; \<^verbatim>\<open>device\<close> is left out. The scheduler is \<open>None\<close> or a scheduler object.
\<close>

record ('p, 'o, 'x, 'y, 'm, 's) solver =
  epochs :: int
  model :: "'p net"
  train_loader :: "('x \<times> 'y) list"
  val_loader :: "('x \<times> 'y) list"
  optimizer :: 'o
  scheduler :: "'s option"
  train_metrics :: 'm
  val_metrics :: 'm
  train_loss_history :: "real list"
  val_loss_history :: "real list"
  train_loss_batch :: "real list"
  best_model :: "'p net"
  best_dice_score :: real

text \<open>\<^verbatim>\<open>__init__\<close>. \<^verbatim>\<open>copy.deepcopy\<close> of a value is the value.\<close>

definition init ::
  "('p, 'o, 'x, 'y, 'l, 'm, 's) collaborators \<Rightarrow> 'p net \<Rightarrow> int \<Rightarrow> ('x \<times> 'y) list \<Rightarrow>
   ('x \<times> 'y) list \<Rightarrow> 'o \<Rightarrow> 's option \<Rightarrow> ('p, 'o, 'x, 'y, 'm, 's) solver" where
  "init env model0 epochs0 train_loader0 val_loader0 optimizer0 scheduler0 =
     \<lparr>epochs = epochs0, model = model0, train_loader = train_loader0,
      val_loader = val_loader0, optimizer = optimizer0, scheduler = scheduler0,
      train_metrics = metrics_new env, val_metrics = metrics_new env,
      train_loss_history = [], val_loss_history = [], train_loss_batch = [],
      best_model = model0, best_dice_score = 0\<rparr>"

text \<open>
  Lines 47 to 52 of \<^verbatim>\<open>fit\<close>: both metric accumulators are reset, the training pass runs,
  \<^verbatim>\<open>train_loss_batch\<close> is extended by its sequence and \<^verbatim>\<open>train_loss_history\<close> gets its
  average.
\<close>

definition fit_train ::
  "('p, 'o, 'x, 'y, 'l, 'm, 's) collaborators \<Rightarrow> ('p, 'o, 'x, 'y, 'm, 's) solver \<Rightarrow>
   (error \<times> ('p, 'o, 'x, 'y, 'm, 's) solver) + ('p, 'o, 'x, 'y, 'm, 's) solver" where
  "fit_train env s =
     (let s0 = s\<lparr>train_metrics := metrics_reset env (train_metrics s),
                 val_metrics := metrics_reset env (val_metrics s)\<rparr>
      in if \<not> call_binds train_signature 6 then Inl (TypeError, s0)
         else
           (case train env (model s0) (optimizer s0) (train_loader s0) (train_metrics s0) of
              (net, opt, mt, r) \<Rightarrow>
                (let s1 = s0\<lparr>model := net, optimizer := opt, train_metrics := mt\<rparr>
                 in case r of
                      Inl e \<Rightarrow> Inl (e, s1)
                    | Inr (t1, t2) \<Rightarrow>
                        Inr (s1\<lparr>train_loss_batch := train_loss_batch s1 @ t1,
                                train_loss_history := train_loss_history s1 @ [t2]\<rparr>))))"

text \<open>
  Line 54: \<^verbatim>\<open>self.evaluate\<close> is called with five written arguments; when they bind, the
  body runs on the network, the validation loader and the validation metrics, and the
  loss is appended to \<^verbatim>\<open>val_loss_history\<close>.
\<close>

definition fit_validate ::
  "('p, 'o, 'x, 'y, 'l, 'm, 's) collaborators \<Rightarrow> ('p, 'o, 'x, 'y, 'm, 's) solver \<Rightarrow>
   (error \<times> ('p, 'o, 'x, 'y, 'm, 's) solver) + ('p, 'o, 'x, 'y, 'm, 's) solver" where
  "fit_validate env s =
     (if \<not> call_binds evaluate_signature 5 then Inl (TypeError, s)
      else
        (case evaluate env (model s) (val_loader s) (val_metrics s) of
           (net, mt, r) \<Rightarrow>
             (let s1 = s\<lparr>model := net, val_metrics := mt\<rparr>
              in case r of
                   Inl e \<Rightarrow> Inl (e, s1)
                 | Inr v \<Rightarrow> Inr (s1\<lparr>val_loss_history := val_loss_history s1 @ [v]\<rparr>))))"

text \<open>
  Lines 59 and 60: \<^verbatim>\<open>if not self.scheduler: self.scheduler.step(self.val_loss_history[-1])\<close>.
  \<open>None\<close> is falsy; a scheduler object is truthy (the schedulers of the library define
  neither \<^verbatim>\<open>__bool__\<close> nor \<^verbatim>\<open>__len__\<close>). The attribute \<^verbatim>\<open>step\<close> is looked up before the
  argument is evaluated, and \<open>None\<close> has no such attribute.
\<close>

definition truthy :: "'s option \<Rightarrow> bool" where
  "truthy sch = (case sch of None \<Rightarrow> False | Some _ \<Rightarrow> True)"

definition fit_scheduler ::
  "('p, 'o, 'x, 'y, 'l, 'm, 's) collaborators \<Rightarrow> ('p, 'o, 'x, 'y, 'm, 's) solver \<Rightarrow>
   (error \<times> ('p, 'o, 'x, 'y, 'm, 's) solver) + ('p, 'o, 'x, 'y, 'm, 's) solver" where
  "fit_scheduler env s =
     (if \<not> truthy (scheduler s) then
        (case scheduler s of
           None \<Rightarrow> Inl (AttributeError, s)
         | Some sch \<Rightarrow>
             (if val_loss_history s = [] then Inl (IndexError, s)
              else Inr (s\<lparr>scheduler :=
                          Some (scheduler_step env sch (last (val_loss_history s)))\<rparr>)))
      else Inr s)"

text \<open>
  Lines 62 to 64, with \<^verbatim>\<open>val_agg_metrics\<close> of line 57: the best score and the snapshot
  are replaced when the validation Dice score is greater than the best score.
\<close>

definition fit_best ::
  "('p, 'o, 'x, 'y, 'l, 'm, 's) collaborators \<Rightarrow> ('p, 'o, 'x, 'y, 'm, 's) solver \<Rightarrow>
   ('p, 'o, 'x, 'y, 'm, 's) solver" where
  "fit_best env s =
     (let val_agg_metrics = metrics_compute env (val_metrics s)
      in if val_agg_metrics DICE_SCORE > best_dice_score s
         then s\<lparr>best_dice_score := val_agg_metrics DICE_SCORE, best_model := model s\<rparr>
         else s)"

text \<open>Lines 66 and 67: the second \<^verbatim>\<open>print\<close> reads \<^verbatim>\<open>self.train_loss_batch[-1]\<close>.\<close>

definition fit_report ::
  "('p, 'o, 'x, 'y, 'm, 's) solver \<Rightarrow>
   (error \<times> ('p, 'o, 'x, 'y, 'm, 's) solver) + ('p, 'o, 'x, 'y, 'm, 's) solver" where
  "fit_report s = (if train_loss_batch s = [] then Inl (IndexError, s) else Inr s)"

text \<open>One iteration of the epoch loop: the statements in order, the first error ends it.\<close>

definition fit_epoch ::
  "('p, 'o, 'x, 'y, 'l, 'm, 's) collaborators \<Rightarrow> ('p, 'o, 'x, 'y, 'm, 's) solver \<Rightarrow>
   (error \<times> ('p, 'o, 'x, 'y, 'm, 's) solver) + ('p, 'o, 'x, 'y, 'm, 's) solver" where
  "fit_epoch env s =
     (case fit_train env s of
        Inl x \<Rightarrow> Inl x
      | Inr s1 \<Rightarrow>
          (case fit_validate env s1 of
             Inl x \<Rightarrow> Inl x
           | Inr s2 \<Rightarrow>
               (case fit_scheduler env s2 of
                  Inl x \<Rightarrow> Inl x
                | Inr s3 \<Rightarrow> fit_report (fit_best env s3))))"

text \<open>
  \<^verbatim>\<open>for epoch in range(1, self.epochs + 1)\<close>: the range is fixed when the loop starts. An
  error is returned with the epoch it was raised in and the driver as it was left.
\<close>

fun fit_loop ::
  "('p, 'o, 'x, 'y, 'l, 'm, 's) collaborators \<Rightarrow> int list \<Rightarrow> ('p, 'o, 'x, 'y, 'm, 's) solver \<Rightarrow>
   (error \<times> int \<times> ('p, 'o, 'x, 'y, 'm, 's) solver) + ('p, 'o, 'x, 'y, 'm, 's) solver" where
  "fit_loop env [] s = Inr s"
| "fit_loop env (epoch # rest) s =
     (case fit_epoch env s of
        Inl (e, s') \<Rightarrow> Inl (e, epoch, s')
      | Inr s' \<Rightarrow> fit_loop env rest s')"

definition fit ::
  "('p, 'o, 'x, 'y, 'l, 'm, 's) collaborators \<Rightarrow> ('p, 'o, 'x, 'y, 'm, 's) solver \<Rightarrow>
   (error \<times> int \<times> ('p, 'o, 'x, 'y, 'm, 's) solver) + ('p, 'o, 'x, 'y, 'm, 's) solver" where
  "fit env s = fit_loop env [1..epochs s] s"

text \<open>The error of an outcome of \<open>fit\<close>, and the driver it leaves.\<close>

definition raised :: "(error \<times> int \<times> 'a) + 'a \<Rightarrow> error option" where
  "raised r = (case r of Inl (e, _, _) \<Rightarrow> Some e | Inr _ \<Rightarrow> None)"

definition raised_in :: "(error \<times> int \<times> 'a) + 'a \<Rightarrow> int option" where
  "raised_in r = (case r of Inl (_, epoch, _) \<Rightarrow> Some epoch | Inr _ \<Rightarrow> None)"

definition left :: "(error \<times> int \<times> 'a) + 'a \<Rightarrow> 'a" where
  "left r = (case r of Inl (_, _, s) \<Rightarrow> s | Inr s \<Rightarrow> s)"

subsection \<open>A small instance\<close>

text \<open>
  Collaborators on which the passes can be run: an input is its batch size, a label is
  the loss the criterion returns for it, the parameters count the optimizer steps, the
  metrics count the updates, and a scheduler is the list of the values it was stepped
  with. The Dice score of a metrics object with \<open>k\<close> updates is \<open>k / 10\<close>.
\<close>

definition toy :: "(nat, unit, nat, real, nat, nat, real list) collaborators" where
  "toy =
     \<lparr>forward = (\<lambda>net X. X),
      criterion = (\<lambda>logits Y. Y),
      size0 = (\<lambda>X. X),
      backward_step = (\<lambda>opt net X Y. (opt, Suc (params net))),
      metrics_new = 0,
      metrics_reset = (\<lambda>m. 0),
      metrics_update = (\<lambda>m logits Y. Suc m),
      metrics_compute = (\<lambda>m k. real m / 10),
      scheduler_step = (\<lambda>sch v. sch @ [v])\<rparr>"

definition toy_net :: "nat net" where
  "toy_net = \<lparr>params = 0, training = False\<rparr>"

definition two_batches :: "(nat \<times> real) list" where
  "two_batches = [(2, 1), (3, 2)]"

definition toy_solver ::
  "int \<Rightarrow> (nat \<times> real) list \<Rightarrow> real list option \<Rightarrow> (nat, unit, nat, real, nat, real list) solver"
  where
  "toy_solver n loader sch = init toy toy_net n loader two_batches () sch"


section \<open>The passes\<close>

lemma train_batch_losses_length:
  "length (train_batch_losses env net opt dl) = length dl"
  by (induction dl arbitrary: net opt) auto

lemma train_loop_total:
  "loss_total (train_loop env k dl v) = loss_total v + sum_list (batch_sizes env dl)"
  by (induction dl arbitrary: k v) (auto simp: batch_sizes_def Let_def)

lemma train_loop_sum:
  "loss_sum (train_loop env k dl v) =
     loss_sum v + sum_list (map2 (\<lambda>l n. l * real n)
       (train_batch_losses env (tv_model v) (tv_optimizer v) dl) (batch_sizes env dl))"
  by (induction dl arbitrary: k v) (auto simp: batch_sizes_def Let_def)

lemma train_loop_train_loss:
  "train_loss (train_loop env k dl v) =
     train_loss v @ map (\<lambda>i. (avg_sum v + sum_list (take (Suc i)
        (train_batch_losses env (tv_model v) (tv_optimizer v) dl))) / real (k + i + 1))
        [0..<length dl]"
proof (induction dl arbitrary: k v)
  case Nil
  then show ?case by simp
next
  case (Cons b dl)
  obtain X Y where b: "b = (X, Y)" by (cases b)
  show ?case
    unfolding b
    by (simp add: Let_def Cons.IH upt_rec [of 0 "Suc (length dl)"] map_Suc_upt [symmetric]
          add.assoc add.commute add.left_commute del: upt_Suc)
qed

lemma evaluate_loop_model: "ev_model (evaluate_loop env k dl v) = ev_model v"
  by (induction dl arbitrary: k v) (auto simp: Let_def)

lemma evaluate_loop_total:
  "total (evaluate_loop env k dl v) = total v + sum_list (batch_sizes env dl)"
  by (induction dl arbitrary: k v) (auto simp: batch_sizes_def Let_def)

lemma evaluate_loop_all_loss:
  "all_loss (evaluate_loop env k dl v) =
     all_loss v + sum_list (map2 (\<lambda>l n. l * real n)
       (evaluate_batch_losses env (ev_model v) dl) (batch_sizes env dl))"
  by (induction dl arbitrary: k v)
     (auto simp: batch_sizes_def evaluate_batch_losses_def Let_def evaluate_loop_model)

text \<open>What \<open>train\<close> and \<open>evaluate\<close> return, in closed form.\<close>

lemma train_result:
  "train env net opt dl mt =
     (tv_model (train_loop env 0 dl \<lparr>tv_model = net\<lparr>training := True\<rparr>, tv_optimizer = opt,
         tv_metrics = mt, loss_sum = 0, loss_total = 0, avg_sum = 0, train_loss = []\<rparr>),
      tv_optimizer (train_loop env 0 dl \<lparr>tv_model = net\<lparr>training := True\<rparr>, tv_optimizer = opt,
         tv_metrics = mt, loss_sum = 0, loss_total = 0, avg_sum = 0, train_loss = []\<rparr>),
      tv_metrics (train_loop env 0 dl \<lparr>tv_model = net\<lparr>training := True\<rparr>, tv_optimizer = opt,
         tv_metrics = mt, loss_sum = 0, loss_total = 0, avg_sum = 0, train_loss = []\<rparr>),
      if sum_list (batch_sizes env dl) = 0 then Inl ZeroDivisionError
      else Inr (map (\<lambda>i. sum_list (take (Suc i)
                   (train_batch_losses env (net\<lparr>training := True\<rparr>) opt dl)) / real (Suc i))
                  [0..<length dl],
                weighted_mean (train_batch_losses env (net\<lparr>training := True\<rparr>) opt dl)
                  (batch_sizes env dl)))"
  by (simp add: train_def Let_def train_loop_total train_loop_sum train_loop_train_loss
      weighted_mean_def add.commute)

lemma evaluate_result:
  "evaluate env net dl mt =
     (net\<lparr>training := False\<rparr>,
      ev_metrics (evaluate_loop env 0 dl \<lparr>ev_model = net\<lparr>training := False\<rparr>,
         ev_metrics = mt, total = 0, all_loss = 0, ev_avg_sum = 0\<rparr>),
      if sum_list (batch_sizes env dl) = 0 then Inl ZeroDivisionError
      else Inr (weighted_mean (evaluate_batch_losses env (net\<lparr>training := False\<rparr>) dl)
                  (batch_sizes env dl)))"
  by (simp add: evaluate_def Let_def evaluate_loop_total evaluate_loop_all_loss
      evaluate_loop_model weighted_mean_def)

text \<open>
  \<open>train_batch_losses\<close> lists the losses the training pass sees: the loss of the batch that
  follows the batches \<open>dl\<close> is taken under the network that \<open>train\<close> leaves after \<open>dl\<close>.
\<close>

lemma train_batch_losses_loop_snoc:
  "train_batch_losses env (tv_model v) (tv_optimizer v) (dl @ [(X, Y)]) =
     train_batch_losses env (tv_model v) (tv_optimizer v) dl @
       [criterion env (forward env (tv_model (train_loop env k dl v)) X) Y]"
proof (induction dl arbitrary: k v)
  case Nil
  then show ?case by simp
next
  case (Cons b dl)
  obtain X' Y' where b: "b = (X', Y')" by (cases b)
  let ?stepped = "backward_step env (tv_optimizer v) (tv_model v) X' Y'"
  let ?logits = "forward env (tv_model v) X'"
  let ?l = "criterion env ?logits Y'"
  let ?v = "v\<lparr>tv_model := (tv_model v)\<lparr>params := snd ?stepped\<rparr>,
              tv_optimizer := fst ?stepped,
              tv_metrics := metrics_update env (tv_metrics v) ?logits Y',
              loss_sum := loss_sum v + ?l * real (size0 env X'),
              loss_total := loss_total v + size0 env X',
              avg_sum := avg_sum v + ?l,
              train_loss := train_loss v @ [(avg_sum v + ?l) / real (k + 1)]\<rparr>"
  have "train_loop env k (b # dl) v = train_loop env (Suc k) dl ?v"
    by (simp add: b Let_def)
  then show ?case
    using Cons.IH [of ?v "Suc k"] by (simp add: b)
qed

lemma train_batch_losses_snoc:
  "train_batch_losses env (net\<lparr>training := True\<rparr>) opt (dl @ [(X, Y)]) =
     train_batch_losses env (net\<lparr>training := True\<rparr>) opt dl @
       [criterion env (forward env (fst (train env net opt dl mt)) X) Y]"
  using train_batch_losses_loop_snoc [of env
      "\<lparr>tv_model = net\<lparr>training := True\<rparr>, tv_optimizer = opt, tv_metrics = mt,
        loss_sum = 0, loss_total = 0, avg_sum = 0, train_loss = []\<rparr>" dl X Y 0]
  by (simp add: train_def Let_def)

lemma positive_sizes_sum:
  "dl \<noteq> [] \<Longrightarrow> \<forall>b\<in>set dl. 0 < size0 env (fst b) \<Longrightarrow> sum_list (batch_sizes env dl) \<noteq> 0"
  by (cases dl) (auto simp: batch_sizes_def)

section \<open>The epoch loop\<close>

lemma evaluate_call_unbound: "unbound evaluate_signature 5 = [''metrics'']"
  by (simp add: unbound_def received_def evaluate_signature_def)

lemma evaluate_call_arity:
  "received evaluate_signature 5 = 5 \<and> length (sig_required evaluate_signature) = 6"
  by (simp add: received_def evaluate_signature_def)

lemma evaluate_call_fails: "\<not> call_binds evaluate_signature 5"
  by (simp add: call_binds_def evaluate_call_unbound)

lemma train_call_binds: "call_binds train_signature 6"
  by (simp add: call_binds_def unbound_def received_def train_signature_def)

lemma fit_validate_raises: "fit_validate env s = Inl (TypeError, s)"
  by (simp add: fit_validate_def evaluate_call_fails)

lemma fit_train_cases:
  "fit_train env s =
     (case train env (model s) (optimizer s) (train_loader s)
             (metrics_reset env (train_metrics s)) of
        (net, opt, mt, r) \<Rightarrow>
          (case r of
             Inl e \<Rightarrow>
               Inl (e, s\<lparr>train_metrics := mt, val_metrics := metrics_reset env (val_metrics s),
                          model := net, optimizer := opt\<rparr>)
           | Inr (t1, t2) \<Rightarrow>
               Inr (s\<lparr>train_metrics := mt, val_metrics := metrics_reset env (val_metrics s),
                      model := net, optimizer := opt,
                      train_loss_batch := train_loss_batch s @ t1,
                      train_loss_history := train_loss_history s @ [t2]\<rparr>)))"
  by (simp add: fit_train_def train_call_binds Let_def split: prod.splits sum.splits)

lemma fit_train_zero:
  "sum_list (batch_sizes env (train_loader s)) = 0 \<Longrightarrow>
   \<exists>s'. fit_train env s = Inl (ZeroDivisionError, s') \<and>
        train_loss_history s' = train_loss_history s \<and>
        val_loss_history s' = val_loss_history s \<and>
        train_loss_batch s' = train_loss_batch s \<and>
        scheduler s' = scheduler s \<and> best_dice_score s' = best_dice_score s \<and>
        best_model s' = best_model s"
  by (simp add: fit_train_cases train_result)

lemma fit_train_nonzero:
  "sum_list (batch_sizes env (train_loader s)) \<noteq> 0 \<Longrightarrow>
   \<exists>s' t1 t2. fit_train env s = Inr s' \<and>
        train_loss_history s' = train_loss_history s @ [t2] \<and>
        val_loss_history s' = val_loss_history s \<and>
        train_loss_batch s' = train_loss_batch s @ t1 \<and> length t1 = length (train_loader s) \<and>
        scheduler s' = scheduler s \<and> best_dice_score s' = best_dice_score s \<and>
        best_model s' = best_model s"
  by (simp add: fit_train_cases train_result)

lemma fit_epoch_zero:
  "sum_list (batch_sizes env (train_loader s)) = 0 \<Longrightarrow>
   \<exists>s'. fit_epoch env s = Inl (ZeroDivisionError, s') \<and>
        train_loss_history s' = train_loss_history s \<and>
        val_loss_history s' = val_loss_history s \<and>
        train_loss_batch s' = train_loss_batch s \<and>
        scheduler s' = scheduler s \<and> best_dice_score s' = best_dice_score s \<and>
        best_model s' = best_model s"
  using fit_train_zero [of env s] by (auto simp: fit_epoch_def)

lemma fit_epoch_nonzero:
  "sum_list (batch_sizes env (train_loader s)) \<noteq> 0 \<Longrightarrow>
   \<exists>s' t1 t2. fit_epoch env s = Inl (TypeError, s') \<and>
        train_loss_history s' = train_loss_history s @ [t2] \<and>
        val_loss_history s' = val_loss_history s \<and>
        train_loss_batch s' = train_loss_batch s @ t1 \<and> length t1 = length (train_loader s) \<and>
        scheduler s' = scheduler s \<and> best_dice_score s' = best_dice_score s \<and>
        best_model s' = best_model s"
  using fit_train_nonzero [of env s] by (auto simp: fit_epoch_def fit_validate_raises)

lemma fit_unfold_first:
  "0 < epochs s \<Longrightarrow>
   fit env s = (case fit_epoch env s of Inl (e, s') \<Rightarrow> Inl (e, 1, s')
                | Inr s' \<Rightarrow> fit_loop env [2..epochs s] s')"
  by (simp add: fit_def upto_rec1 [of 1 "epochs s"])

lemma fit_no_epoch: "epochs s \<le> 0 \<Longrightarrow> fit env s = Inr s"
  by (simp add: fit_def)

lemma fit_zero:
  "0 < epochs s \<Longrightarrow> sum_list (batch_sizes env (train_loader s)) = 0 \<Longrightarrow>
   \<exists>s'. fit env s = Inl (ZeroDivisionError, 1, s') \<and>
        train_loss_history s' = train_loss_history s \<and>
        val_loss_history s' = val_loss_history s \<and>
        train_loss_batch s' = train_loss_batch s \<and>
        scheduler s' = scheduler s \<and> best_dice_score s' = best_dice_score s \<and>
        best_model s' = best_model s"
  using fit_epoch_zero [of env s] by (auto simp: fit_unfold_first)

lemma fit_nonzero:
  "0 < epochs s \<Longrightarrow> sum_list (batch_sizes env (train_loader s)) \<noteq> 0 \<Longrightarrow>
   \<exists>s' t1 t2. fit env s = Inl (TypeError, 1, s') \<and>
        train_loss_history s' = train_loss_history s @ [t2] \<and>
        val_loss_history s' = val_loss_history s \<and>
        train_loss_batch s' = train_loss_batch s @ t1 \<and> length t1 = length (train_loader s) \<and>
        scheduler s' = scheduler s \<and> best_dice_score s' = best_dice_score s \<and>
        best_model s' = best_model s"
  using fit_epoch_nonzero [of env s] by (auto simp: fit_unfold_first)

lemma fit_completes_iff: "fit env s = Inr s' \<longleftrightarrow> epochs s \<le> 0 \<and> s' = s"
proof (cases "0 < epochs s")
  case True
  then show ?thesis
    using fit_zero [of s env] fit_nonzero [of s env]
    by (cases "sum_list (batch_sizes env (train_loader s)) = 0") auto
next
  case False
  then show ?thesis by (auto simp: fit_no_epoch)
qed

text \<open>What a run of \<open>fit\<close> leaves untouched, whether it returns or raises.\<close>

lemma fit_frame:
  "(\<exists>t. train_loss_batch (left (fit env s)) = train_loss_batch s @ t) \<and>
   best_dice_score (left (fit env s)) = best_dice_score s \<and>
   best_model (left (fit env s)) = best_model s \<and>
   scheduler (left (fit env s)) = scheduler s \<and>
   val_loss_history (left (fit env s)) = val_loss_history s"
proof -
  consider "epochs s \<le> 0" | "0 < epochs s" "sum_list (batch_sizes env (train_loader s)) = 0"
    | "0 < epochs s" "sum_list (batch_sizes env (train_loader s)) \<noteq> 0" by linarith
  then show ?thesis
  proof cases
    case 1
    then show ?thesis by (simp add: fit_no_epoch left_def)
  next
    case 2
    then show ?thesis using fit_zero [of s env] by (auto simp: left_def)
  next
    case 3
    then show ?thesis using fit_nonzero [of s env] by (auto simp: left_def)
  qed
qed

lemma fit_scheduler_cases:
  "fit_scheduler env s =
     (case scheduler s of None \<Rightarrow> Inl (AttributeError, s) | Some sch \<Rightarrow> Inr s)"
  by (simp add: fit_scheduler_def truthy_def split: option.splits)





section \<open>The claims\<close>

subsection \<open>C1: the first epoch raises\<close>

text \<open>
  Claim C1, as amended. \<^verbatim>\<open>evaluate\<close> is a static method with six parameters without a
  default, the first of them named \<^verbatim>\<open>self\<close>; the call at line 54 passes five arguments
  and leaves \<^verbatim>\<open>metrics\<close> unbound. For every epoch count of at least 1, \<open>fit\<close> never
  returns: it raises in the first epoch, before a validation loss is recorded. The error
  is \<^verbatim>\<open>TypeError\<close> when the training pass of that epoch returns, that is when the batch
  sizes of the training loader do not sum to zero, and then the training loss of the epoch
  has been recorded; it is the \<^verbatim>\<open>ZeroDivisionError\<close> of the training pass when they sum to
  zero.
\<close>

theorem fit_first_epoch_raises:
  "0 < epochs s \<Longrightarrow>
   received evaluate_signature 5 = 5 \<and> length (sig_required evaluate_signature) = 6 \<and>
   unbound evaluate_signature 5 = [''metrics''] \<and>
   (\<forall>s'. fit env s \<noteq> Inr s') \<and>
   raised_in (fit env s) = Some 1 \<and>
   raised (fit env s) =
     Some (if sum_list (batch_sizes env (train_loader s)) = 0 then ZeroDivisionError
           else TypeError) \<and>
   val_loss_history (left (fit env s)) = val_loss_history s \<and>
   length (train_loss_history (left (fit env s))) =
     length (train_loss_history s) +
       (if sum_list (batch_sizes env (train_loader s)) = 0 then 0 else 1)"
proof (cases "sum_list (batch_sizes env (train_loader s)) = 0")
  case True
  assume "0 < epochs s"
  then show ?thesis
    using True fit_zero [of s env]
    by (auto simp: evaluate_call_unbound evaluate_call_arity raised_def raised_in_def left_def)
next
  case False
  assume "0 < epochs s"
  then show ?thesis
    using False fit_nonzero [of s env]
    by (auto simp: evaluate_call_unbound evaluate_call_arity raised_def raised_in_def left_def)
qed

text \<open>Three epochs over two batches: \<^verbatim>\<open>TypeError\<close> in epoch 1, one training loss recorded.\<close>

theorem fit_first_epoch_raises_witness:
  "0 < epochs (toy_solver 3 two_batches None) \<and>
   raised (fit toy (toy_solver 3 two_batches None)) = Some TypeError \<and>
   raised_in (fit toy (toy_solver 3 two_batches None)) = Some 1 \<and>
   val_loss_history (left (fit toy (toy_solver 3 two_batches None))) = [] \<and>
   length (train_loss_history (left (fit toy (toy_solver 3 two_batches None)))) = 1"
proof -
  have h: "0 < epochs (toy_solver 3 two_batches None)"
    by (simp add: toy_solver_def init_def)
  show ?thesis
    using h fit_first_epoch_raises [OF h, of toy]
    by (simp add: toy_solver_def init_def batch_sizes_def two_batches_def toy_def)
qed

text \<open>
  The claim as first stated has \<open>fit\<close> raise \<^verbatim>\<open>TypeError\<close> for every epoch count of at
  least 1. With one epoch and an empty training loader, line 111 divides \<open>0\<close> by \<open>0\<close>
  inside the call of line 50, and line 54 is not reached.
\<close>

theorem fit_empty_train_loader_counterexample:
  "1 \<le> epochs (toy_solver 1 [] None) \<and>
   raised (fit toy (toy_solver 1 [] None)) = Some ZeroDivisionError \<and>
   raised (fit toy (toy_solver 1 [] None)) \<noteq> Some TypeError"
  by (simp add: fit_def fit_epoch_def fit_train_def train_call_binds train_def raised_def
      toy_solver_def init_def toy_def toy_net_def)

subsection \<open>C2: the lengths of the loss histories\<close>


subsection \<open>C3: the best Dice score\<close>


subsection \<open>C4: the epoch average\<close>

text \<open>
  Claim C4, as amended. When the batch sizes of the loader do not sum to zero, as for
  every loader that is not empty and whose batches hold at least one sample each, the
  training pass and the evaluation pass return the batch-size-weighted mean of the losses
  of their batches: the sum of loss times batch size over the sum of the batch sizes. For
  two batches of sizes 2 and 3 with losses 1 and 2 that is 1.6. When the batch sizes sum
  to zero the passes raise \<^verbatim>\<open>ZeroDivisionError\<close>.

  The equation is one between the formulas over the reals. The code evaluates the same
  formula with binary64 operations and returns the rounded value, so nothing is said here
  about a loader of one batch returning the loss of that batch bit for bit: the code
  returns \<^verbatim>\<open>l * n / n\<close>, which is \<^verbatim>\<open>0.10000000000000002\<close> for \<^verbatim>\<open>l = 0.1\<close> and \<^verbatim>\<open>n = 3\<close>.
\<close>

theorem pass_average_formula:
  "(sum_list (batch_sizes env dl) \<noteq> 0 \<longrightarrow>
      (\<exists>net' opt' mt' running.
          train env net opt dl mt =
            (net', opt', mt',
             Inr (running,
                  weighted_mean (train_batch_losses env (net\<lparr>training := True\<rparr>) opt dl)
                    (batch_sizes env dl)))) \<and>
      (\<exists>net' mt'.
          evaluate env net dl mt =
            (net', mt',
             Inr (weighted_mean (evaluate_batch_losses env (net\<lparr>training := False\<rparr>) dl)
                    (batch_sizes env dl))))) \<and>
   (sum_list (batch_sizes env dl) = 0 \<longrightarrow>
      (\<exists>net' opt' mt'. train env net opt dl mt = (net', opt', mt', Inl ZeroDivisionError)) \<and>
      (\<exists>net' mt'. evaluate env net dl mt = (net', mt', Inl ZeroDivisionError))) \<and>
   (dl \<noteq> [] \<and> (\<forall>b\<in>set dl. 0 < size0 env (fst b)) \<longrightarrow>
      sum_list (batch_sizes env dl) \<noteq> 0) \<and>
   (batch_sizes env dl = [2, 3] \<and>
    train_batch_losses env (net\<lparr>training := True\<rparr>) opt dl = [1, 2] \<longrightarrow>
      (\<exists>net' opt' mt' running.
          train env net opt dl mt = (net', opt', mt', Inr (running, 1.6)))) \<and>
   (batch_sizes env dl = [2, 3] \<and>
    evaluate_batch_losses env (net\<lparr>training := False\<rparr>) dl = [1, 2] \<longrightarrow>
      (\<exists>net' mt'. evaluate env net dl mt = (net', mt', Inr 1.6)))"
proof (intro conjI impI)
  assume nz: "sum_list (batch_sizes env dl) \<noteq> 0"
  show "\<exists>net' opt' mt' running.
          train env net opt dl mt =
            (net', opt', mt',
             Inr (running,
                  weighted_mean (train_batch_losses env (net\<lparr>training := True\<rparr>) opt dl)
                    (batch_sizes env dl)))"
    using nz by (simp add: train_result)
  show "\<exists>net' mt'.
          evaluate env net dl mt =
            (net', mt',
             Inr (weighted_mean (evaluate_batch_losses env (net\<lparr>training := False\<rparr>) dl)
                    (batch_sizes env dl)))"
    using nz by (simp add: evaluate_result)
next
  assume z: "sum_list (batch_sizes env dl) = 0"
  show "\<exists>net' opt' mt'. train env net opt dl mt = (net', opt', mt', Inl ZeroDivisionError)"
    using z by (simp add: train_result)
  show "\<exists>net' mt'. evaluate env net dl mt = (net', mt', Inl ZeroDivisionError)"
    using z by (simp add: evaluate_result)
next
  assume "dl \<noteq> [] \<and> (\<forall>b\<in>set dl. 0 < size0 env (fst b))"
  then show "sum_list (batch_sizes env dl) \<noteq> 0"
    using positive_sizes_sum by blast
next
  assume "batch_sizes env dl = [2, 3] \<and>
    train_batch_losses env (net\<lparr>training := True\<rparr>) opt dl = [1, 2]"
  then show "\<exists>net' opt' mt' running.
          train env net opt dl mt = (net', opt', mt', Inr (running, 1.6))"
    by (simp add: train_result weighted_mean_def)
next
  assume "batch_sizes env dl = [2, 3] \<and>
    evaluate_batch_losses env (net\<lparr>training := False\<rparr>) dl = [1, 2]"
  then show "\<exists>net' mt'. evaluate env net dl mt = (net', mt', Inr 1.6)"
    by (simp add: evaluate_result weighted_mean_def)
qed

theorem pass_average_formula_witness:
  "sum_list (batch_sizes toy two_batches) = 5 \<and>
   evaluate toy toy_net two_batches 0 = (toy_net, 2, Inr 1.6) \<and>
   train toy toy_net () two_batches 0 =
     (\<lparr>params = 2, training = True\<rparr>, (), 2, Inr ([1, 1.5], 1.6)) \<and>
   sum_list (batch_sizes toy []) = 0 \<and>
   evaluate toy toy_net [] 0 = (toy_net, 0, Inl ZeroDivisionError)"
proof -
  have h: "two_batches \<noteq> [] \<and> (\<forall>b\<in>set two_batches. 0 < size0 toy (fst b))"
    by (simp add: two_batches_def toy_def)
  have h2: "batch_sizes toy two_batches = [2, 3] \<and>
      evaluate_batch_losses toy (toy_net\<lparr>training := False\<rparr>) two_batches = [1, 2]"
    by (simp add: batch_sizes_def evaluate_batch_losses_def two_batches_def toy_def)
  have h3: "batch_sizes toy two_batches = [2, 3] \<and>
      train_batch_losses toy (toy_net\<lparr>training := True\<rparr>) () two_batches = [1, 2]"
    by (simp add: batch_sizes_def two_batches_def toy_def)
  have h4: "sum_list (batch_sizes toy []) = 0"
    by (simp add: batch_sizes_def)
  note inst = pass_average_formula [where env = toy and dl = two_batches and net = toy_net
      and opt = "()" and mt = 0]
  note inst0 = pass_average_formula [where env = toy and dl = "[]" and net = toy_net
      and opt = "()" and mt = 0]
  have nz: "sum_list (batch_sizes toy two_batches) \<noteq> 0"
    using h inst by blast
  have m: "\<exists>net' mt'. evaluate toy toy_net two_batches 0 =
      (net', mt',
       Inr (weighted_mean (evaluate_batch_losses toy (toy_net\<lparr>training := False\<rparr>) two_batches)
              (batch_sizes toy two_batches)))"
    using nz inst by blast
  have a: "\<exists>net' mt'. evaluate toy toy_net two_batches 0 = (net', mt', Inr 1.6)"
    using h2 inst by blast
  have b: "\<exists>net' opt' mt' running.
      train toy toy_net () two_batches 0 = (net', opt', mt', Inr (running, 1.6))"
    using h3 inst by blast
  have c: "\<exists>net' mt'. evaluate toy toy_net [] 0 = (net', mt', Inl ZeroDivisionError)"
    using h4 inst0 by blast
  have a': "fst (evaluate toy toy_net two_batches 0) = toy_net \<and>
      fst (snd (evaluate toy toy_net two_batches 0)) = 2"
    by (simp add: evaluate_def toy_def toy_net_def two_batches_def)
  have b': "fst (train toy toy_net () two_batches 0) = \<lparr>params = 2, training = True\<rparr> \<and>
      fst (snd (snd (train toy toy_net () two_batches 0))) = 2 \<and>
      map_sum id fst (snd (snd (snd (train toy toy_net () two_batches 0)))) = Inr [1, 1.5]"
    by (simp add: train_def toy_def toy_net_def two_batches_def)
  have c': "fst (evaluate toy toy_net [] 0) = toy_net \<and>
      fst (snd (evaluate toy toy_net [] 0)) = 0"
    by (simp add: evaluate_def toy_net_def)
  have s5: "sum_list (batch_sizes toy two_batches) = 5"
    using h2 by simp
  show ?thesis
    using m a b c a' b' c' h4 s5 by auto
qed

text \<open>
  The claim as first stated covers every loader that is not empty. A loader of one batch
  of size 0 is not empty, and both passes divide by a total of 0 on it.
\<close>

theorem zero_size_batch_counterexample:
  "[(0, 1)] \<noteq> ([] :: (nat \<times> real) list) \<and>
   evaluate toy toy_net [(0, 1)] 0 = (toy_net, 1, Inl ZeroDivisionError) \<and>
   train toy toy_net () [(0, 1)] 0 =
     (\<lparr>params = 1, training = True\<rparr>, (), 1, Inl ZeroDivisionError)"
  by (simp add: evaluate_def train_def toy_def toy_net_def)

subsection \<open>C5: the running mean of the training pass\<close>

text \<open>
  Claim C5. When the training pass over \<open>B\<close> batches returns, its sequence has length \<open>B\<close>
  and its element at index \<open>i\<close> is the sum of the losses of the first \<open>i + 1\<close> batches
  divided by \<open>i + 1\<close>.
\<close>

theorem running_mean_sequence:
  "train env net opt dl mt = (net', opt', mt', Inr (running, avg)) \<Longrightarrow>
   length running = length dl \<and>
   (\<forall>i<length dl.
      running ! i =
        sum_list (take (Suc i) (train_batch_losses env (net\<lparr>training := True\<rparr>) opt dl))
          / real (Suc i))"
  by (auto simp: train_result split: if_splits)

theorem running_mean_sequence_witness:
  "train toy toy_net () two_batches 0 =
     (\<lparr>params = 2, training = True\<rparr>, (), 2, Inr ([1, 1.5], 1.6)) \<and>
   length [1, 1.5 :: real] = length two_batches \<and>
   train_batch_losses toy (toy_net\<lparr>training := True\<rparr>) () two_batches = [1, 2] \<and>
   [1, 1.5 :: real] ! 1 = (1 + 2) / 2"
proof -
  have h: "train toy toy_net () two_batches 0 =
     (\<lparr>params = 2, training = True\<rparr>, (), 2, Inr ([1, 1.5], 1.6))"
    by (simp add: train_def toy_def toy_net_def two_batches_def)
  show ?thesis
    using h running_mean_sequence [OF h]
    by (simp add: two_batches_def toy_def)
qed

subsection \<open>C6: the guard of the scheduler step\<close>

text \<open>
  Claim C6. The guard of line 59 holds exactly when no scheduler is configured, so the
  step of line 60 is attempted only then. With a scheduler object configured, lines 59
  and 60 change nothing: no step occurs. No run of \<open>fit\<close> changes the scheduler.
\<close>

theorem scheduler_step_guard:
  "(scheduler s = Some sch \<longrightarrow> fit_scheduler env s = Inr s) \<and>
   (\<not> truthy (scheduler s) \<longleftrightarrow> scheduler s = None) \<and>
   (fit_scheduler env s \<noteq> Inr s \<longrightarrow> scheduler s = None) \<and>
   scheduler (left (fit env s)) = scheduler s"
  using fit_frame [of env s]
  by (auto simp: fit_scheduler_cases truthy_def split: option.splits)

theorem scheduler_step_guard_witness:
  "scheduler (toy_solver 1 two_batches (Some [0.5])) = Some [0.5] \<and>
   fit_scheduler toy (toy_solver 1 two_batches (Some [0.5])) =
     Inr (toy_solver 1 two_batches (Some [0.5])) \<and>
   fit_scheduler toy (toy_solver 1 two_batches None) \<noteq> Inr (toy_solver 1 two_batches None) \<and>
   scheduler (toy_solver 1 two_batches None) = None"
proof -
  have a: "scheduler (toy_solver 1 two_batches (Some [0.5])) = Some [0.5]"
    by (simp add: toy_solver_def init_def)
  have b: "fit_scheduler toy (toy_solver 1 two_batches None) \<noteq> Inr (toy_solver 1 two_batches None)"
    by (simp add: fit_scheduler_def truthy_def toy_solver_def init_def)
  show ?thesis
    using a b
      scheduler_step_guard [where env = toy and s = "toy_solver 1 two_batches (Some [0.5])"
        and sch = "[0.5]"]
      scheduler_step_guard [where env = toy and s = "toy_solver 1 two_batches None"]
    by simp
qed

subsection \<open>C7: the evaluation pass leaves the parameters alone\<close>

text \<open>
  Claim C7. The evaluation pass returns the network with the parameters it was given (it
  only sets the mode), and a second pass, on the network and the metrics the first pass
  left and the same loader, returns the same loss or error.
\<close>

theorem evaluate_twice_same_loss:
  "evaluate env net dl mt = (net1, mt1, r1) \<Longrightarrow>
   evaluate env net1 dl mt1 = (net2, mt2, r2) \<Longrightarrow>
   params net1 = params net \<and> net2 = net1 \<and> r2 = r1"
  by (auto simp: evaluate_result)

text \<open>The first pass changes the mode and the metrics; the loss is 1.6 both times.\<close>

theorem evaluate_twice_same_loss_witness:
  "evaluate toy \<lparr>params = 5, training = True\<rparr> two_batches 0 =
     (\<lparr>params = 5, training = False\<rparr>, 2, Inr 1.6) \<and>
   evaluate toy \<lparr>params = 5, training = False\<rparr> two_batches 2 =
     (\<lparr>params = 5, training = False\<rparr>, 4, Inr 1.6)"
proof -
  have a: "evaluate toy \<lparr>params = 5, training = True\<rparr> two_batches 0 =
     (\<lparr>params = 5, training = False\<rparr>, 2, Inr 1.6)"
    by (simp add: evaluate_def toy_def two_batches_def)
  have b: "evaluate toy \<lparr>params = 5, training = False\<rparr> two_batches 2 =
     (\<lparr>params = 5, training = False\<rparr>, 4, Inr 1.6)"
    by (simp add: evaluate_def toy_def two_batches_def)
  show ?thesis
    using a b evaluate_twice_same_loss [OF a b] by simp
qed

subsection \<open>C8: an empty loader\<close>

text \<open>
  Claim C8. On an empty loader the training pass and the evaluation pass raise
  \<^verbatim>\<open>ZeroDivisionError\<close> and return no value. The caller does not catch it: the training
  statements of an epoch raise it, and so does \<open>fit\<close>, in its first epoch.
\<close>

theorem empty_loader_division_by_zero:
  "train env net opt [] mt = (net\<lparr>training := True\<rparr>, opt, mt, Inl ZeroDivisionError) \<and>
   evaluate env net [] mt = (net\<lparr>training := False\<rparr>, mt, Inl ZeroDivisionError) \<and>
   (train_loader s = [] \<longrightarrow> (\<exists>s'. fit_train env s = Inl (ZeroDivisionError, s'))) \<and>
   (0 < epochs s \<and> train_loader s = [] \<longrightarrow>
      raised (fit env s) = Some ZeroDivisionError \<and> raised_in (fit env s) = Some 1)"
proof (intro conjI impI)
  show "train env net opt [] mt = (net\<lparr>training := True\<rparr>, opt, mt, Inl ZeroDivisionError)"
    by (simp add: train_def)
  show "evaluate env net [] mt = (net\<lparr>training := False\<rparr>, mt, Inl ZeroDivisionError)"
    by (simp add: evaluate_def)
next
  assume "train_loader s = []"
  then show "\<exists>s'. fit_train env s = Inl (ZeroDivisionError, s')"
    using fit_train_zero [of env s] by (auto simp: batch_sizes_def)
next
  assume "0 < epochs s \<and> train_loader s = []"
  then show "raised (fit env s) = Some ZeroDivisionError"
    using fit_zero [of s env] by (auto simp: batch_sizes_def raised_def)
next
  assume "0 < epochs s \<and> train_loader s = []"
  then show "raised_in (fit env s) = Some 1"
    using fit_zero [of s env] by (auto simp: batch_sizes_def raised_in_def)
qed

theorem empty_loader_division_by_zero_witness:
  "0 < epochs (toy_solver 2 [] (Some [])) \<and> train_loader (toy_solver 2 [] (Some [])) = [] \<and>
   raised (fit toy (toy_solver 2 [] (Some []))) = Some ZeroDivisionError \<and>
   raised_in (fit toy (toy_solver 2 [] (Some []))) = Some 1"
proof -
  have h: "0 < epochs (toy_solver 2 [] (Some [])) \<and> train_loader (toy_solver 2 [] (Some [])) = []"
    by (simp add: toy_solver_def init_def)
  show ?thesis
    using h empty_loader_division_by_zero [where env = toy and s = "toy_solver 2 [] (Some [])"]
    by blast
qed

subsection \<open>C9: the scheduler step without a scheduler\<close>




subsection \<open>C10: the per-batch losses of the driver\<close>


end
